theory Spec2Isabelle
  imports Main
begin

section \<open>Values of the Go program\<close>

text \<open>
  Go errors. \<open>Wrapped msg err\<close> is \<^verbatim>\<open>fmt.Errorf("msg: %w", err)\<close>;
  \<open>DeadlineExceeded\<close> is \<^verbatim>\<open>context.DeadlineExceeded\<close>, the error of a context
  whose timeout has elapsed; \<open>ErrServerClosed\<close> is \<^verbatim>\<open>http.ErrServerClosed\<close>;
  \<open>OSError\<close> is any other error of the operating system or the standard library.
\<close>

datatype error =
    DeadlineExceeded
  | ErrServerClosed
  | OSError string
  | Wrapped string error


text \<open>
  How a Go call ends: it returns a value, it panics, or it never returns (it waits on a
  channel that nothing is sent on).
\<close>

datatype 'a outcome = Return 'a | Panic string | Block

text \<open>
  \<^verbatim>\<open>net.Listener\<close> is an interface; its dynamic type is \<^verbatim>\<open>*net.TCPListener\<close>
  or another listener of package net (here \<^verbatim>\<open>*net.UnixListener\<close>). The number is
  the descriptor of the socket.
\<close>

datatype listener = TCPListener nat | UnixListener nat

datatype os_File = File nat

definition Stdin :: os_File where "Stdin = File 0"
definition Stdout :: os_File where "Stdout = File 1"
definition Stderr :: os_File where "Stderr = File 2"

record ProcAttr =
  Env :: "string list"
  Files :: "os_File list"

datatype signal = SIGHUP | SIGINT | SIGTERM | SIGQUIT

text \<open>\<^verbatim>\<open>time.Duration\<close> counts nanoseconds.\<close>

type_synonym Duration = int

definition Second :: Duration where "Second = 1000000000"

text \<open>
  What the operating system and the standard library answer to the calls of the program.
  \<open>Environ\<close> holds the entries \<^verbatim>\<open>KEY=value\<close> of the process environment.
\<close>

record OS =
  Environ :: "string list"
  Args :: "string list"
  Executable :: "error + string"
  Getpid :: int
  Getppid :: int
  net_Listen :: "string \<Rightarrow> string \<Rightarrow> error + listener"
  net_FileListener :: "os_File \<Rightarrow> error + listener"
  TCPListener_File :: "nat \<Rightarrow> error + os_File"
  StartProcess :: "string \<Rightarrow> string list \<Rightarrow> ProcAttr \<Rightarrow> error + int"

text \<open>
  \<^verbatim>\<open>os.LookupEnv\<close> and \<^verbatim>\<open>os.Getenv\<close> of the standard library: the first entry
  \<^verbatim>\<open>key=value\<close> for the key decides, and \<^verbatim>\<open>Getenv\<close> returns the empty string for
  a variable that is not set.
\<close>

fun LookupEnv :: "string list \<Rightarrow> string \<Rightarrow> string option" where
  "LookupEnv [] key = None"
| "LookupEnv (s # env) key =
     (if CHR ''='' \<in> set s \<and> takeWhile (\<lambda>c. c \<noteq> CHR ''='') s = key
      then Some (tl (dropWhile (\<lambda>c. c \<noteq> CHR ''='') s))
      else LookupEnv env key)"

definition Getenv :: "string list \<Rightarrow> string \<Rightarrow> string" where
  "Getenv env key = (case LookupEnv env key of None \<Rightarrow> [] | Some v \<Rightarrow> v)"

text \<open>
  The observable effects of a run, in the order they happen: log entries (message and
  integer fields, or message and error), a fresh bind (\<^verbatim>\<open>net.Listen\<close>), the wrapping
  of a descriptor (\<^verbatim>\<open>net.FileListener(os.NewFile(fd, ""))\<close>), the duplication of a
  listener's descriptor, the closing of a file, the start of a process, the launch of the
  serving goroutine, the call of a shutdown callback, and \<^verbatim>\<open>server.Shutdown(ctx)\<close>
  with the timeout of \<open>ctx\<close>.
\<close>

datatype event =
    LogInfo string "(string \<times> int) list"
  | LogError string error
  | EvListen string string
  | EvFileListener os_File
  | EvListenerFile nat
  | EvClose os_File
  | EvStartProcess string "string list" ProcAttr
  | EvServe listener
  | EvCallback nat
  | EvShutdown Duration

section \<open>upgrader: GracefulUpgrader\<close>

record GracefulUpgrader =
  ln :: "listener option"
  pid :: int
  ppid :: int

definition NewGracefulUpgrader :: "OS \<Rightarrow> GracefulUpgrader" where
  "NewGracefulUpgrader os = \<lparr>ln = None, pid = Getpid os, ppid = Getppid os\<rparr>"

text \<open>
  \<^verbatim>\<open>Listen\<close> returns the listener or the error, the upgrader (whose field \<open>ln\<close> it
  sets on success) and the effects.
\<close>

definition Listen ::
  "OS \<Rightarrow> GracefulUpgrader \<Rightarrow> string \<Rightarrow> string
    \<Rightarrow> (error + listener) \<times> GracefulUpgrader \<times> event list" where
  "Listen os g network address =
     (if Getenv (Environ os) ''GRACEFUL_RESTART'' = ''true'' then
        (case net_FileListener os (File 3) of
           Inl err \<Rightarrow>
             (Inl (Wrapped ''failed to inherit listener'' err), g,
              [LogInfo ''Inheriting listener from parent process''
                 [(''pid'', pid g), (''ppid'', ppid g)],
               EvFileListener (File 3)])
         | Inr l \<Rightarrow>
             (Inr l, g\<lparr>ln := Some l\<rparr>,
              [LogInfo ''Inheriting listener from parent process''
                 [(''pid'', pid g), (''ppid'', ppid g)],
               EvFileListener (File 3),
               EvClose (File 3)]))
      else
        (case net_Listen os network address of
           Inl err \<Rightarrow>
             (Inl (Wrapped ''failed to create listener'' err), g,
              [EvListen network address])
         | Inr l \<Rightarrow>
             (Inr l, g\<lparr>ln := Some l\<rparr>, [EvListen network address])))"

text \<open>
  \<^verbatim>\<open>Reload\<close>. The type assertion \<^verbatim>\<open>g.ln.(*net.TCPListener)\<close> has one result, so
  it panics when the listener is nil or of another type. The deferred
  \<^verbatim>\<open>listenerFile.Close()\<close> runs on both returns that follow it.
\<close>

definition Reload :: "OS \<Rightarrow> GracefulUpgrader \<Rightarrow> error option outcome \<times> event list" where
  "Reload os g =
     (case Executable os of
        Inl err \<Rightarrow>
          (Return (Some (Wrapped ''failed to get executable path'' err)),
           [LogInfo ''Starting graceful reload'' [(''old_pid'', pid g)]])
      | Inr executable \<Rightarrow>
          (case ln g of
             Some (TCPListener fd) \<Rightarrow>
               (case TCPListener_File os fd of
                  Inl err \<Rightarrow>
                    (Return (Some (Wrapped ''failed to get listener file'' err)),
                     [LogInfo ''Starting graceful reload'' [(''old_pid'', pid g)],
                      EvListenerFile fd])
                | Inr listenerFile \<Rightarrow>
                    (let env = Environ os @ [''GRACEFUL_RESTART=true''];
                         attr = \<lparr>Env = env, Files = [Stdin, Stdout, Stderr, listenerFile]\<rparr>
                     in case StartProcess os executable (Args os) attr of
                          Inl err \<Rightarrow>
                            (Return (Some (Wrapped ''failed to start new process'' err)),
                             [LogInfo ''Starting graceful reload'' [(''old_pid'', pid g)],
                              EvListenerFile fd,
                              EvStartProcess executable (Args os) attr,
                              EvClose listenerFile])
                        | Inr new_pid \<Rightarrow>
                            (Return None,
                             [LogInfo ''Starting graceful reload'' [(''old_pid'', pid g)],
                              EvListenerFile fd,
                              EvStartProcess executable (Args os) attr,
                              LogInfo ''Started new process'' [(''new_pid'', new_pid)],
                              EvClose listenerFile])))
           | _ \<Rightarrow>
               (Panic ''interface conversion: net.Listener is not *net.TCPListener'',
                [LogInfo ''Starting graceful reload'' [(''old_pid'', pid g)]])))"

text \<open>
  The server as \<^verbatim>\<open>WaitForSignal\<close> sees it: an object with
  \<^verbatim>\<open>Shutdown(ctx) error\<close>. The context is represented by its timeout.
\<close>

record Server =
  Shutdown :: "Duration \<Rightarrow> error option"

text \<open>
  \<^verbatim>\<open>WaitForSignal\<close>. The list holds the signals read from \<^verbatim>\<open>signalChan\<close>, each
  with the answers of the operating system at the time it is handled. With no signal left
  the loop waits in \<^verbatim>\<open>sig := <-signalChan\<close>. A signal that matches no case of the
  switch starts the next iteration.
\<close>

fun WaitForSignal ::
  "GracefulUpgrader \<Rightarrow> Server \<Rightarrow> (signal \<times> OS) list \<Rightarrow> error option outcome \<times> event list" where
  "WaitForSignal g server [] = (Block, [])"
| "WaitForSignal g server ((sig, os) # sigs) =
     (case sig of
        SIGHUP \<Rightarrow>
          (case Reload os g of
             (Return (Some err), evs) \<Rightarrow>
               (case WaitForSignal g server sigs of
                  (r, evs') \<Rightarrow> (r, evs @ [LogError ''Failed to reload'' err] @ evs'))
           | (Return None, evs) \<Rightarrow>
               (case Shutdown server (30 * Second) of
                  Some err \<Rightarrow>
                    (Return (Some err),
                     evs @ [EvShutdown (30 * Second), LogError ''Failed to shutdown'' err])
                | None \<Rightarrow>
                    (Return None,
                     evs @ [EvShutdown (30 * Second),
                            LogInfo ''Graceful reload completed'' [(''pid'', pid g)]]))
           | (Panic p, evs) \<Rightarrow> (Panic p, evs)
           | (Block, evs) \<Rightarrow> (Block, evs))
      | SIGTERM \<Rightarrow>
          (case Shutdown server (30 * Second) of
             Some err \<Rightarrow>
               (Return (Some err),
                [EvShutdown (30 * Second), LogError ''Failed to shutdown'' err])
           | None \<Rightarrow>
               (Return None,
                [EvShutdown (30 * Second),
                 LogInfo ''Graceful shutdown completed'' [(''pid'', pid g)]]))
      | SIGINT \<Rightarrow>
          (case Shutdown server (30 * Second) of
             Some err \<Rightarrow>
               (Return (Some err),
                [EvShutdown (30 * Second), LogError ''Failed to shutdown'' err])
           | None \<Rightarrow>
               (Return None,
                [EvShutdown (30 * Second),
                 LogInfo ''Graceful shutdown completed'' [(''pid'', pid g)]]))
      | SIGQUIT \<Rightarrow> WaitForSignal g server sigs)"

section \<open>ginx: Engine\<close>

text \<open>
  A shutdown callback is a \<^verbatim>\<open>func()\<close>. What the engine can observe of one is that
  it was called and how the call ended; \<open>cb_id\<close> tells the callbacks apart in the trace.
\<close>

record callback =
  cb_id :: nat
  cb_end :: "unit outcome"

record Options =
  Port :: int

record Engine =
  server :: Server
  options :: Options
  shutdownCallbacks :: "callback list"

definition RegisterOnShutdown :: "Engine \<Rightarrow> callback \<Rightarrow> Engine" where
  "RegisterOnShutdown engine f =
     engine\<lparr>shutdownCallbacks := shutdownCallbacks engine @ [f]\<rparr>"

text \<open>The loop of \<^verbatim>\<open>executeShutdownCallbacks\<close>: a callback that panics or never
  returns ends it.\<close>

fun executeShutdownCallbacks_loop :: "callback list \<Rightarrow> unit outcome \<times> event list" where
  "executeShutdownCallbacks_loop [] = (Return (), [])"
| "executeShutdownCallbacks_loop (cb # cbs) =
     (case cb_end cb of
        Return u \<Rightarrow>
          (case executeShutdownCallbacks_loop cbs of
             (r, evs) \<Rightarrow> (r, EvCallback (cb_id cb) # evs))
      | Panic p \<Rightarrow> (Panic p, [EvCallback (cb_id cb)])
      | Block \<Rightarrow> (Block, [EvCallback (cb_id cb)]))"

definition executeShutdownCallbacks :: "Engine \<Rightarrow> unit outcome \<times> event list" where
  "executeShutdownCallbacks engine =
     executeShutdownCallbacks_loop (shutdownCallbacks engine)"

text \<open>
  What \<^verbatim>\<open>GracefulServe\<close> waits for: a signal on \<^verbatim>\<open>quit\<close>, or the return of
  \<^verbatim>\<open>server.ListenAndServe()\<close> in the goroutine, which sends the error on
  \<^verbatim>\<open>errChan\<close> unless it is nil or \<^verbatim>\<open>http.ErrServerClosed\<close>.
  The case \<^verbatim>\<open><-quit\<close> does not look at the signal. The context is created before
  the callbacks run and is represented by the timeout it was created with.
\<close>

datatype arrival = Quit signal | ListenAndServeReturns "error option"

fun GracefulServe ::
  "Engine \<Rightarrow> Server \<Rightarrow> arrival list \<Rightarrow> error option outcome \<times> event list" where
  "GracefulServe engine srv [] = (Block, [])"
| "GracefulServe engine srv (ListenAndServeReturns r # rest) =
     (case r of
        None \<Rightarrow> GracefulServe engine srv rest
      | Some err \<Rightarrow>
          (if err \<noteq> ErrServerClosed
           then (Return (Some (Wrapped ''HTTP server error'' err)), [])
           else GracefulServe engine srv rest))"
| "GracefulServe engine srv (Quit sig # rest) =
     (case executeShutdownCallbacks engine of
        (Return u, evs) \<Rightarrow>
          (case Shutdown srv (30 * Second) of
             Some err \<Rightarrow>
               (Return (Some (Wrapped ''server shutdown error'' err)),
                [LogInfo ''Received shutdown signal, starting graceful shutdown...'' []]
                @ evs
                @ [EvShutdown (30 * Second), LogError ''Server shutdown error'' err])
           | None \<Rightarrow>
               (Return None,
                [LogInfo ''Received shutdown signal, starting graceful shutdown...'' []]
                @ evs
                @ [EvShutdown (30 * Second),
                   LogInfo ''Server has been shutdown successfully'' []]))
      | (Panic p, evs) \<Rightarrow>
          (Panic p,
           [LogInfo ''Received shutdown signal, starting graceful shutdown...'' []] @ evs)
      | (Block, evs) \<Rightarrow>
          (Block,
           [LogInfo ''Received shutdown signal, starting graceful shutdown...'' []] @ evs))"

text \<open>\<^verbatim>\<open>fmt.Sprintf(":%d", port)\<close>: the port in decimal after a colon.\<close>

function utoa :: "nat \<Rightarrow> string" where
  "utoa n =
     (if n < 10 then [''0123456789'' ! n]
      else utoa (n div 10) @ [''0123456789'' ! (n mod 10)])"
  by pat_completeness auto
termination
  by (relation "measure id") auto

declare utoa.simps [simp del]

definition itoa :: "int \<Rightarrow> string" where
  "itoa i = (if i < 0 then CHR ''-'' # utoa (nat (- i)) else utoa (nat i))"

definition Sprintf_port :: "int \<Rightarrow> string" where
  "Sprintf_port port = CHR '':'' # itoa port"

text \<open>
  \<^verbatim>\<open>GracefulRun\<close>. The goroutine that serves on the listener is represented by the
  event of its launch; the function goes on to \<^verbatim>\<open>WaitForSignal\<close> with the
  engine's server.
\<close>

definition GracefulRun ::
  "OS \<Rightarrow> Engine \<Rightarrow> (signal \<times> OS) list \<Rightarrow> error option outcome \<times> event list" where
  "GracefulRun os e sigs =
     (case Listen os (NewGracefulUpgrader os) ''tcp'' (Sprintf_port (Port (options e))) of
        (Inl err, graceful, evs) \<Rightarrow>
          (Return (Some (Wrapped ''failed to create listener'' err)), evs)
      | (Inr l, graceful, evs) \<Rightarrow>
          (case WaitForSignal graceful (server e) sigs of
             (r, evs') \<Rightarrow>
               (r,
                evs
                @ [LogInfo ''Server is starting''
                     [(''port'', Port (options e)), (''pid'', Getpid os)],
                   EvServe l]
                @ evs')))"

section \<open>Reading a trace\<close>

definition callbacks_run :: "event list \<Rightarrow> nat list" where
  "callbacks_run evs =
     concat (map (\<lambda>ev. case ev of EvCallback i \<Rightarrow> [i] | _ \<Rightarrow> []) evs)"

definition shutdowns :: "event list \<Rightarrow> Duration list" where
  "shutdowns evs =
     concat (map (\<lambda>ev. case ev of EvShutdown d \<Rightarrow> [d] | _ \<Rightarrow> []) evs)"

definition binds :: "event list \<Rightarrow> (string \<times> string) list" where
  "binds evs =
     concat (map (\<lambda>ev. case ev of EvListen n a \<Rightarrow> [(n, a)] | _ \<Rightarrow> []) evs)"

definition wraps :: "event list \<Rightarrow> os_File list" where
  "wraps evs =
     concat (map (\<lambda>ev. case ev of EvFileListener f \<Rightarrow> [f] | _ \<Rightarrow> []) evs)"

definition spawns :: "event list \<Rightarrow> (string \<times> string list \<times> ProcAttr) list" where
  "spawns evs =
     concat (map (\<lambda>ev. case ev of EvStartProcess x a p \<Rightarrow> [(x, a, p)] | _ \<Rightarrow> []) evs)"

definition reload_starts :: "event list \<Rightarrow> nat" where
  "reload_starts evs =
     length (filter (\<lambda>ev. case ev of LogInfo m fs \<Rightarrow> m = ''Starting graceful reload''
                                   | _ \<Rightarrow> False) evs)"

text \<open>The events before the first \<^verbatim>\<open>server.Shutdown\<close>.\<close>

definition before_shutdown :: "event list \<Rightarrow> event list" where
  "before_shutdown evs =
     takeWhile (\<lambda>ev. case ev of EvShutdown d \<Rightarrow> False | _ \<Rightarrow> True) evs"

section \<open>Example inputs\<close>

definition example_os :: OS where
  "example_os =
     \<lparr>Environ = [''PATH=/usr/bin''],
      Args = [''/srv/app''],
      Executable = Inr ''/srv/app'',
      Getpid = 100,
      Getppid = 1,
      net_Listen = (\<lambda>network address.
         if network = ''tcp'' then Inr (TCPListener 7) else Inr (UnixListener 7)),
      net_FileListener = (\<lambda>f. Inr (TCPListener 8)),
      TCPListener_File = (\<lambda>fd. Inr (File 9)),
      StartProcess = (\<lambda>name argv attr. Inr 101)\<rparr>"

definition example_server :: Server where
  "example_server = \<lparr>Shutdown = (\<lambda>timeout. None)\<rparr>"

text \<open>A server that needs 31 seconds to finish its requests.\<close>

definition slow_server :: Server where
  "slow_server =
     \<lparr>Shutdown = (\<lambda>timeout. if 31 * Second \<le> timeout then None else Some DeadlineExceeded)\<rparr>"

definition example_engine :: Engine where
  "example_engine =
     \<lparr>server = example_server, options = \<lparr>Port = 8080\<rparr>, shutdownCallbacks = []\<rparr>"

definition flush_cache :: callback where
  "flush_cache = \<lparr>cb_id = 1, cb_end = Return ()\<rparr>"

definition close_db :: callback where
  "close_db = \<lparr>cb_id = 2, cb_end = Return ()\<rparr>"

definition two_callbacks_engine :: Engine where
  "two_callbacks_engine =
     RegisterOnShutdown (RegisterOnShutdown example_engine flush_cache) close_db"

definition tcp_upgrader :: GracefulUpgrader where
  "tcp_upgrader = \<lparr>ln = Some (TCPListener 7), pid = 100, ppid = 1\<rparr>"

definition unix_upgrader :: GracefulUpgrader where
  "unix_upgrader = \<lparr>ln = Some (UnixListener 7), pid = 100, ppid = 1\<rparr>"

definition marker_false_os :: OS where
  "marker_false_os = example_os\<lparr>Environ := [''PATH=/usr/bin'', ''GRACEFUL_RESTART=false'']\<rparr>"

definition inherit_os :: OS where
  "inherit_os = example_os\<lparr>Environ := [''PATH=/usr/bin'', ''GRACEFUL_RESTART=true'']\<rparr>"

definition bad_descriptor_os :: OS where
  "bad_descriptor_os =
     inherit_os\<lparr>net_FileListener := (\<lambda>f. Inl (OSError ''bad file descriptor''))\<rparr>"

definition no_executable_os :: OS where
  "no_executable_os = example_os\<lparr>Executable := Inl (OSError ''no such file or directory'')\<rparr>"

section \<open>Facts about traces and \<^verbatim>\<open>Reload\<close>\<close>

lemma callbacks_run_simps [simp]:
  "callbacks_run [] = []"
  "callbacks_run (ev # evs) = (case ev of EvCallback i \<Rightarrow> [i] | _ \<Rightarrow> []) @ callbacks_run evs"
  "callbacks_run (xs @ ys) = callbacks_run xs @ callbacks_run ys"
  by (simp_all add: callbacks_run_def)

lemma shutdowns_simps [simp]:
  "shutdowns [] = []"
  "shutdowns (ev # evs) = (case ev of EvShutdown d \<Rightarrow> [d] | _ \<Rightarrow> []) @ shutdowns evs"
  "shutdowns (xs @ ys) = shutdowns xs @ shutdowns ys"
  by (simp_all add: shutdowns_def)

lemma binds_simps [simp]:
  "binds [] = []"
  "binds (ev # evs) = (case ev of EvListen n a \<Rightarrow> [(n, a)] | _ \<Rightarrow> []) @ binds evs"
  "binds (xs @ ys) = binds xs @ binds ys"
  by (simp_all add: binds_def)

lemma wraps_simps [simp]:
  "wraps [] = []"
  "wraps (ev # evs) = (case ev of EvFileListener f \<Rightarrow> [f] | _ \<Rightarrow> []) @ wraps evs"
  "wraps (xs @ ys) = wraps xs @ wraps ys"
  by (simp_all add: wraps_def)

lemma spawns_simps [simp]:
  "spawns [] = []"
  "spawns (ev # evs) =
     (case ev of EvStartProcess x a p \<Rightarrow> [(x, a, p)] | _ \<Rightarrow> []) @ spawns evs"
  "spawns (xs @ ys) = spawns xs @ spawns ys"
  by (simp_all add: spawns_def)

lemma Reload_cases:
  obtains (no_exe) err where "Executable os = Inl err"
      "Reload os g = (Return (Some (Wrapped ''failed to get executable path'' err)),
           [LogInfo ''Starting graceful reload'' [(''old_pid'', pid g)]])"
  | (not_tcp) exe where "Executable os = Inr exe" "\<forall>fd. ln g \<noteq> Some (TCPListener fd)"
      "Reload os g = (Panic ''interface conversion: net.Listener is not *net.TCPListener'',
                [LogInfo ''Starting graceful reload'' [(''old_pid'', pid g)]])"
  | (no_file) exe fd err where "Executable os = Inr exe" "ln g = Some (TCPListener fd)"
      "TCPListener_File os fd = Inl err"
      "Reload os g = (Return (Some (Wrapped ''failed to get listener file'' err)),
                     [LogInfo ''Starting graceful reload'' [(''old_pid'', pid g)],
                      EvListenerFile fd])"
  | (no_start) exe fd lf err where "Executable os = Inr exe" "ln g = Some (TCPListener fd)"
      "TCPListener_File os fd = Inr lf"
      "StartProcess os exe (Args os)
         \<lparr>Env = Environ os @ [''GRACEFUL_RESTART=true''], Files = [Stdin, Stdout, Stderr, lf]\<rparr>
       = Inl err"
      "Reload os g = (Return (Some (Wrapped ''failed to start new process'' err)),
                             [LogInfo ''Starting graceful reload'' [(''old_pid'', pid g)],
                              EvListenerFile fd,
                              EvStartProcess exe (Args os)
         \<lparr>Env = Environ os @ [''GRACEFUL_RESTART=true''], Files = [Stdin, Stdout, Stderr, lf]\<rparr>,
                              EvClose lf])"
  | (started) exe fd lf new_pid where "Executable os = Inr exe" "ln g = Some (TCPListener fd)"
      "TCPListener_File os fd = Inr lf"
      "StartProcess os exe (Args os)
         \<lparr>Env = Environ os @ [''GRACEFUL_RESTART=true''], Files = [Stdin, Stdout, Stderr, lf]\<rparr>
       = Inr new_pid"
      "Reload os g = (Return None,
                             [LogInfo ''Starting graceful reload'' [(''old_pid'', pid g)],
                              EvListenerFile fd,
                              EvStartProcess exe (Args os)
         \<lparr>Env = Environ os @ [''GRACEFUL_RESTART=true''], Files = [Stdin, Stdout, Stderr, lf]\<rparr>,
                              LogInfo ''Started new process'' [(''new_pid'', new_pid)],
                              EvClose lf])"
proof (cases "Executable os")
  case (Inl err)
  then show ?thesis using no_exe by (simp add: Reload_def)
next
  case (Inr exe)
  note exe = this
  show ?thesis
  proof (cases "ln g")
    case None
    then show ?thesis using not_tcp exe by (simp add: Reload_def)
  next
    case (Some l)
    show ?thesis
    proof (cases l)
      case (UnixListener fd)
      then show ?thesis using not_tcp exe Some by (simp add: Reload_def)
    next
      case (TCPListener fd)
      note tcp = this
      show ?thesis
      proof (cases "TCPListener_File os fd")
        case (Inl err)
        then show ?thesis using no_file exe Some tcp by (simp add: Reload_def)
      next
        case (Inr lf)
        note lf = this
        show ?thesis
        proof (cases "StartProcess os exe (Args os)
         \<lparr>Env = Environ os @ [''GRACEFUL_RESTART=true''], Files = [Stdin, Stdout, Stderr, lf]\<rparr>")
          case (Inl err)
          then show ?thesis using no_start [of exe fd lf err] exe Some tcp lf
            by (simp add: Reload_def)
        next
          case (Inr new_pid)
          then show ?thesis using started [of exe fd lf new_pid] exe Some tcp lf
            by (simp add: Reload_def)
        qed
      qed
    qed
  qed
qed

lemma Reload_no_shutdown [simp]: "shutdowns (snd (Reload os g)) = []"
  by (cases os g rule: Reload_cases) simp_all

lemma Reload_no_callback [simp]: "callbacks_run (snd (Reload os g)) = []"
  by (cases os g rule: Reload_cases) simp_all

lemma Reload_one_start [simp]: "reload_starts (snd (Reload os g)) = 1"
  by (cases os g rule: Reload_cases) (simp_all add: reload_starts_def)

lemma before_shutdown_simps [simp]:
  "before_shutdown [] = []"
  "before_shutdown (ev # evs) =
     (case ev of EvShutdown d \<Rightarrow> [] | _ \<Rightarrow> ev # before_shutdown evs)"
  by (simp_all add: before_shutdown_def split: event.splits)

lemma before_shutdown_callbacks [simp]:
  "before_shutdown (map (\<lambda>cb. EvCallback (cb_id cb)) cbs @ evs) =
     map (\<lambda>cb. EvCallback (cb_id cb)) cbs @ before_shutdown evs"
  by (induction cbs) simp_all

lemma callbacks_run_callbacks [simp]:
  "callbacks_run (map (\<lambda>cb. EvCallback (cb_id cb)) cbs) = map cb_id cbs"
  by (induction cbs) simp_all

lemma shutdowns_callbacks [simp]:
  "shutdowns (map (\<lambda>cb. EvCallback (cb_id cb)) cbs) = []"
  by (induction cbs) simp_all

lemma loop_no_shutdown [simp]:
  "shutdowns (snd (executeShutdownCallbacks_loop cbs)) = []"
  by (induction cbs) (auto split: outcome.splits prod.splits)

lemma loop_Return:
  "fst (executeShutdownCallbacks_loop cbs) = Return u \<Longrightarrow>
     snd (executeShutdownCallbacks_loop cbs) = map (\<lambda>cb. EvCallback (cb_id cb)) cbs"
  by (induction cbs) (simp_all split: outcome.splits prod.splits)

lemma Listen_no_callback [simp]:
  "callbacks_run (snd (snd (Listen os g network address))) = []"
  by (simp add: Listen_def split: sum.splits)

lemma WaitForSignal_no_callback [simp]:
  "callbacks_run (snd (WaitForSignal g srv sigs)) = []"
proof (induction sigs)
  case Nil
  then show ?case by simp
next
  case (Cons a sigs)
  obtain sig os where a: "a = (sig, os)" by (cases a)
  obtain r evs where rl: "Reload os g = (r, evs)" by (cases "Reload os g")
  have nc: "callbacks_run evs = []"
    using Reload_no_callback [of os g] rl by simp
  show ?case
    using Cons a rl nc
    by (cases sig; cases "WaitForSignal g srv sigs")
       (auto split: outcome.splits option.splits)
qed

lemma GracefulRun_runs_no_callback:
  "callbacks_run (snd (GracefulRun os e sigs)) = []"
proof -
  obtain r g evs where l:
    "Listen os (NewGracefulUpgrader os) ''tcp'' (Sprintf_port (Port (options e))) = (r, g, evs)"
    by (cases "Listen os (NewGracefulUpgrader os) ''tcp'' (Sprintf_port (Port (options e)))")
  have nc: "callbacks_run evs = []"
    using Listen_no_callback [of os "NewGracefulUpgrader os" "''tcp''"
        "Sprintf_port (Port (options e))"] l by simp
  obtain r' evs' where w: "WaitForSignal g (server e) sigs = (r', evs')"
    by (cases "WaitForSignal g (server e) sigs")
  have nc': "callbacks_run evs' = []"
    using WaitForSignal_no_callback [of g "server e" sigs] w by simp
  show ?thesis
    using l nc w nc' by (cases r) (simp_all add: GracefulRun_def)
qed

lemma Reload_not_tcp_panics:
  assumes "Executable os = Inr exe" and "\<forall>fd. ln g \<noteq> Some (TCPListener fd)"
  shows "Reload os g =
           (Panic ''interface conversion: net.Listener is not *net.TCPListener'',
            [LogInfo ''Starting graceful reload'' [(''old_pid'', pid g)]])"
  using assms by (cases os g rule: Reload_cases) simp_all

lemma GracefulServe_shutdown_requested:
  assumes "shutdowns (snd (GracefulServe engine srv arrivals)) \<noteq> []"
  shows "GracefulServe engine srv arrivals =
           (Return (map_option (Wrapped ''server shutdown error'') (Shutdown srv (30 * Second))),
            [LogInfo ''Received shutdown signal, starting graceful shutdown...'' []]
            @ map (\<lambda>cb. EvCallback (cb_id cb)) (shutdownCallbacks engine)
            @ [EvShutdown (30 * Second),
               case Shutdown srv (30 * Second) of
                 Some err \<Rightarrow> LogError ''Server shutdown error'' err
               | None \<Rightarrow> LogInfo ''Server has been shutdown successfully'' []])"
  using assms
proof (induction engine srv arrivals rule: GracefulServe.induct)
  case (1 engine srv)
  then show ?case by simp
next
  case (2 engine srv r rest)
  then show ?case by (simp split: option.splits if_splits)
next
  case (3 engine srv sig rest)
  obtain r evs where loop: "executeShutdownCallbacks_loop (shutdownCallbacks engine) = (r, evs)"
    by (cases "executeShutdownCallbacks_loop (shutdownCallbacks engine)")
  have ns: "shutdowns evs = []"
    using loop_no_shutdown [of "shutdownCallbacks engine"] loop by simp
  show ?case
  proof (cases r)
    case (Return u)
    then have "evs = map (\<lambda>cb. EvCallback (cb_id cb)) (shutdownCallbacks engine)"
      using loop_Return [of "shutdownCallbacks engine" u] loop by simp
    then show ?thesis
      using loop Return by (simp add: executeShutdownCallbacks_def split: option.splits)
  next
    case (Panic p)
    then show ?thesis
      using "3.prems" loop ns by (simp add: executeShutdownCallbacks_def)
  next
    case Block
    then show ?thesis
      using "3.prems" loop ns by (simp add: executeShutdownCallbacks_def)
  qed
qed

lemma WaitForSignal_shutdowns:
  "shutdowns (snd (WaitForSignal g srv sigs)) = []
   \<or> shutdowns (snd (WaitForSignal g srv sigs)) = [30 * Second]
     \<and> fst (WaitForSignal g srv sigs) = Return (Shutdown srv (30 * Second))"
proof (induction sigs)
  case Nil
  then show ?case by simp
next
  case (Cons a sigs)
  obtain sig os where a: "a = (sig, os)" by (cases a)
  show ?case
  proof (cases sig)
    case SIGHUP
    obtain r evs where rl: "Reload os g = (r, evs)" by (cases "Reload os g")
    have ns: "shutdowns evs = []"
      using Reload_no_shutdown [of os g] rl by simp
    show ?thesis
      using Cons a SIGHUP rl ns
      by (cases "WaitForSignal g srv sigs")
         (auto split: outcome.splits option.splits)
  next
    case SIGINT
    then show ?thesis using a by (simp split: option.splits)
  next
    case SIGTERM
    then show ?thesis using a by (simp split: option.splits)
  next
    case SIGQUIT
    then show ?thesis using a Cons by simp
  qed
qed

section \<open>The example inputs evaluated\<close>

lemma Sprintf_port_8080: "Sprintf_port 8080 = '':8080''"
  by (simp add: Sprintf_port_def itoa_def utoa.simps)

lemma Getenv_example_os: "Getenv (Environ example_os) ''GRACEFUL_RESTART'' = []"
  by (simp add: example_os_def Getenv_def)

lemma Listen_example_os:
  "Listen example_os (NewGracefulUpgrader example_os) ''tcp'' '':8080'' =
     (Inr (TCPListener 7), \<lparr>ln = Some (TCPListener 7), pid = 100, ppid = 1\<rparr>,
      [EvListen ''tcp'' '':8080''])"
  by (simp add: Listen_def Getenv_example_os) (simp add: example_os_def NewGracefulUpgrader_def)

lemma Reload_example_os:
  "Reload example_os \<lparr>ln = Some (TCPListener 7), pid = 100, ppid = 1\<rparr> =
     (Return None,
      [LogInfo ''Starting graceful reload'' [(''old_pid'', 100)],
       EvListenerFile 7,
       EvStartProcess ''/srv/app'' [''/srv/app'']
         \<lparr>Env = [''PATH=/usr/bin'', ''GRACEFUL_RESTART=true''],
          Files = [File 0, File 1, File 2, File 9]\<rparr>,
       LogInfo ''Started new process'' [(''new_pid'', 101)],
       EvClose (File 9)])"
  by (simp add: Reload_def example_os_def Stdin_def Stdout_def Stderr_def)

lemma two_callbacks_engine_fields:
  "shutdownCallbacks two_callbacks_engine = [flush_cache, close_db]"
  "options two_callbacks_engine = \<lparr>Port = 8080\<rparr>"
  "server two_callbacks_engine = example_server"
  by (simp_all add: two_callbacks_engine_def RegisterOnShutdown_def example_engine_def)

lemma two_callbacks_engine_slow:
  "GracefulServe two_callbacks_engine slow_server [Quit SIGTERM] =
     (Return (Some (Wrapped ''server shutdown error'' DeadlineExceeded)),
      [LogInfo ''Received shutdown signal, starting graceful shutdown...'' [],
       EvCallback 1,
       EvCallback 2,
       EvShutdown (30 * Second),
       LogError ''Server shutdown error'' DeadlineExceeded])"
proof -
  have cbs: "executeShutdownCallbacks two_callbacks_engine =
      (Return (), [EvCallback 1, EvCallback 2])"
    by (simp add: executeShutdownCallbacks_def two_callbacks_engine_def RegisterOnShutdown_def
        example_engine_def flush_cache_def close_db_def)
  have sd: "Shutdown slow_server (30 * Second) = Some DeadlineExceeded"
    by (simp add: slow_server_def Second_def)
  show ?thesis
    by (simp add: cbs sd)
qed

section \<open>The claims\<close>

text \<open>
  C1. The claim: on every reload or terminate sequence of \<^verbatim>\<open>GracefulRun\<close>, every
  callback registered with \<^verbatim>\<open>RegisterOnShutdown\<close> is called once, in registration
  order, before the server is shut down. The code: with two callbacks registered, a
  terminate signal and a reload signal each lead \<^verbatim>\<open>GracefulRun\<close> to shut the
  server down and return nil, and the trace holds no call of a callback
  (\<open>GracefulRun_runs_no_callback\<close> shows the same for every input).
\<close>

theorem GracefulRun_skips_shutdown_callbacks:
  "shutdownCallbacks two_callbacks_engine = [flush_cache, close_db]
   \<and> GracefulRun example_os two_callbacks_engine [(SIGTERM, example_os)]
     = (Return None,
        [EvListen ''tcp'' '':8080'',
         LogInfo ''Server is starting'' [(''port'', 8080), (''pid'', 100)],
         EvServe (TCPListener 7),
         EvShutdown (30 * Second),
         LogInfo ''Graceful shutdown completed'' [(''pid'', 100)]])
   \<and> GracefulRun example_os two_callbacks_engine [(SIGHUP, example_os)]
     = (Return None,
        [EvListen ''tcp'' '':8080'',
         LogInfo ''Server is starting'' [(''port'', 8080), (''pid'', 100)],
         EvServe (TCPListener 7),
         LogInfo ''Starting graceful reload'' [(''old_pid'', 100)],
         EvListenerFile 7,
         EvStartProcess ''/srv/app'' [''/srv/app'']
           \<lparr>Env = [''PATH=/usr/bin'', ''GRACEFUL_RESTART=true''],
            Files = [File 0, File 1, File 2, File 9]\<rparr>,
         LogInfo ''Started new process'' [(''new_pid'', 101)],
         EvClose (File 9),
         EvShutdown (30 * Second),
         LogInfo ''Graceful reload completed'' [(''pid'', 100)]])"
proof -
  have pid: "Getpid example_os = 100"
    by (simp add: example_os_def)
  have sd: "Shutdown example_server (30 * Second) = None"
    by (simp add: example_server_def)
  show ?thesis
    by (simp add: two_callbacks_engine_fields GracefulRun_def Sprintf_port_8080
        Listen_example_os Reload_example_os sd pid)
qed

text \<open>
  C2. The claim: \<^verbatim>\<open>Reload\<close> with a listener that is not a TCP listener returns an
  error (unsupported transport). The code: a listener obtained from
  \<^verbatim>\<open>Listen("unixpacket", ...)\<close> makes the type assertion of \<^verbatim>\<open>Reload\<close> panic, and
  the panic leaves \<^verbatim>\<open>WaitForSignal\<close> too; no error is returned
  (\<open>Reload_not_tcp_panics\<close> shows the same for every such listener).
\<close>

theorem Reload_unix_listener_panics:
  "Listen example_os (NewGracefulUpgrader example_os) ''unixpacket'' ''/run/app.sock''
     = (Inr (UnixListener 7), unix_upgrader, [EvListen ''unixpacket'' ''/run/app.sock''])
   \<and> Reload example_os unix_upgrader
     = (Panic ''interface conversion: net.Listener is not *net.TCPListener'',
        [LogInfo ''Starting graceful reload'' [(''old_pid'', 100)]])
   \<and> WaitForSignal unix_upgrader example_server [(SIGHUP, example_os)]
     = (Panic ''interface conversion: net.Listener is not *net.TCPListener'',
        [LogInfo ''Starting graceful reload'' [(''old_pid'', 100)]])"
proof -
  have l: "Listen example_os (NewGracefulUpgrader example_os) ''unixpacket'' ''/run/app.sock''
     = (Inr (UnixListener 7), unix_upgrader, [EvListen ''unixpacket'' ''/run/app.sock''])"
    by (simp add: Listen_def Getenv_example_os)
       (simp add: example_os_def NewGracefulUpgrader_def unix_upgrader_def)
  have r: "Reload example_os unix_upgrader
     = (Panic ''interface conversion: net.Listener is not *net.TCPListener'',
        [LogInfo ''Starting graceful reload'' [(''old_pid'', 100)]])"
    by (simp add: Reload_def example_os_def unix_upgrader_def)
  show ?thesis
    by (simp add: l r)
qed

text \<open>
  C3, as amended. \<^verbatim>\<open>Listen\<close> wraps descriptor 3 and binds nothing exactly when
  \<^verbatim>\<open>os.Getenv("GRACEFUL_RESTART")\<close> is the string \<^verbatim>\<open>true\<close>; in every other
  environment (the variable unset, or set to another value) it binds the given address
  and wraps nothing.
\<close>

theorem Listen_inherits_iff_marker_true:
  "(wraps (snd (snd (Listen os g network address))) = [File 3]
      \<and> binds (snd (snd (Listen os g network address))) = [])
     = (Getenv (Environ os) ''GRACEFUL_RESTART'' = ''true'')
   \<and> (binds (snd (snd (Listen os g network address))) = [(network, address)]
      \<and> wraps (snd (snd (Listen os g network address))) = [])
     = (Getenv (Environ os) ''GRACEFUL_RESTART'' \<noteq> ''true'')"
  by (simp add: Listen_def split: sum.splits)

text \<open>
  C3 as stated (presence of the variable decides) fails: with
  \<^verbatim>\<open>GRACEFUL_RESTART=false\<close> in the environment the variable is present and
  \<^verbatim>\<open>Listen\<close> binds afresh.
\<close>

theorem Listen_marker_false_binds:
  "LookupEnv (Environ marker_false_os) ''GRACEFUL_RESTART'' = Some ''false''
   \<and> Listen marker_false_os (NewGracefulUpgrader marker_false_os) ''tcp'' '':8080''
     = (Inr (TCPListener 7), \<lparr>ln = Some (TCPListener 7), pid = 100, ppid = 1\<rparr>,
        [EvListen ''tcp'' '':8080''])"
proof -
  have env: "LookupEnv (Environ marker_false_os) ''GRACEFUL_RESTART'' = Some ''false''"
    by (simp add: marker_false_os_def)
  show ?thesis
    by (simp add: env Listen_def Getenv_def)
       (simp add: marker_false_os_def example_os_def NewGracefulUpgrader_def)
qed

text \<open>The amended C3 at an environment with \<^verbatim>\<open>GRACEFUL_RESTART=true\<close>.\<close>

theorem Listen_inherits_iff_marker_true_witness:
  "Getenv (Environ inherit_os) ''GRACEFUL_RESTART'' = ''true''
   \<and> wraps (snd (snd (Listen inherit_os (NewGracefulUpgrader inherit_os) ''tcp'' '':8080'')))
       = [File 3]
   \<and> binds (snd (snd (Listen inherit_os (NewGracefulUpgrader inherit_os) ''tcp'' '':8080'')))
       = []"
proof -
  have m: "Getenv (Environ inherit_os) ''GRACEFUL_RESTART'' = ''true''"
    by (simp add: inherit_os_def Getenv_def)
  show ?thesis
    using m Listen_inherits_iff_marker_true [of inherit_os "NewGracefulUpgrader inherit_os"
        "''tcp''" "'':8080''"]
    by simp
qed

text \<open>
  C4. When \<^verbatim>\<open>GRACEFUL_RESTART\<close> is \<^verbatim>\<open>true\<close> and wrapping descriptor 3 fails,
  \<^verbatim>\<open>Listen\<close> returns that failure wrapped as "failed to inherit listener", leaves
  the upgrader without a listener as it was, and binds nothing; \<^verbatim>\<open>GracefulRun\<close>
  returns the error without a bind either.
\<close>

theorem Listen_inherit_failure_is_fatal:
  assumes "Getenv (Environ os) ''GRACEFUL_RESTART'' = ''true''"
      and "net_FileListener os (File 3) = Inl err"
  shows "Listen os g network address =
           (Inl (Wrapped ''failed to inherit listener'' err), g,
            [LogInfo ''Inheriting listener from parent process''
               [(''pid'', pid g), (''ppid'', ppid g)],
             EvFileListener (File 3)])
         \<and> binds (snd (snd (Listen os g network address))) = []
         \<and> fst (GracefulRun os e sigs) =
             Return (Some (Wrapped ''failed to create listener''
                            (Wrapped ''failed to inherit listener'' err)))
         \<and> binds (snd (GracefulRun os e sigs)) = []"
  using assms by (simp add: Listen_def GracefulRun_def)

theorem Listen_inherit_failure_is_fatal_witness:
  "Getenv (Environ bad_descriptor_os) ''GRACEFUL_RESTART'' = ''true''
   \<and> net_FileListener bad_descriptor_os (File 3) = Inl (OSError ''bad file descriptor'')
   \<and> fst (Listen bad_descriptor_os (NewGracefulUpgrader bad_descriptor_os) ''tcp'' '':8080'')
       = Inl (Wrapped ''failed to inherit listener'' (OSError ''bad file descriptor''))
   \<and> binds (snd (snd (Listen bad_descriptor_os (NewGracefulUpgrader bad_descriptor_os)
                          ''tcp'' '':8080''))) = []
   \<and> fst (GracefulRun bad_descriptor_os example_engine [(SIGTERM, bad_descriptor_os)])
       = Return (Some (Wrapped ''failed to create listener''
                        (Wrapped ''failed to inherit listener'' (OSError ''bad file descriptor''))))"
proof -
  have m: "Getenv (Environ bad_descriptor_os) ''GRACEFUL_RESTART'' = ''true''"
    by (simp add: bad_descriptor_os_def inherit_os_def Getenv_def)
  have f: "net_FileListener bad_descriptor_os (File 3) = Inl (OSError ''bad file descriptor'')"
    by (simp add: bad_descriptor_os_def)
  show ?thesis
    using m f
      Listen_inherit_failure_is_fatal [OF m f, of "NewGracefulUpgrader bad_descriptor_os"
        "''tcp''" "'':8080''" example_engine "[(SIGTERM, bad_descriptor_os)]"]
    by simp
qed

text \<open>
  C5. When \<^verbatim>\<open>Reload\<close> returns nil, it has started exactly one process: the running
  executable with the arguments of the parent, the environment of the parent followed by
  \<^verbatim>\<open>GRACEFUL_RESTART=true\<close>, and the files stdin, stdout, stderr and the duplicate
  of the listener's descriptor, in this order (so the duplicate is descriptor 3 of the
  child).
\<close>

theorem Reload_spawn_parameters:
  assumes "fst (Reload os g) = Return None"
  shows "\<exists>executable fd listenerFile.
           Executable os = Inr executable
         \<and> ln g = Some (TCPListener fd)
         \<and> TCPListener_File os fd = Inr listenerFile
         \<and> spawns (snd (Reload os g)) =
             [(executable, Args os,
               \<lparr>Env = Environ os @ [''GRACEFUL_RESTART=true''],
                Files = [Stdin, Stdout, Stderr, listenerFile]\<rparr>)]"
  using assms by (cases os g rule: Reload_cases) simp_all

theorem Reload_spawn_parameters_witness:
  "fst (Reload example_os \<lparr>ln = Some (TCPListener 7), pid = 100, ppid = 1\<rparr>) = Return None
   \<and> spawns (snd (Reload example_os \<lparr>ln = Some (TCPListener 7), pid = 100, ppid = 1\<rparr>)) =
       [(''/srv/app'', [''/srv/app''],
         \<lparr>Env = [''PATH=/usr/bin'', ''GRACEFUL_RESTART=true''],
          Files = [File 0, File 1, File 2, File 9]\<rparr>)]"
proof -
  have h: "fst (Reload example_os \<lparr>ln = Some (TCPListener 7), pid = 100, ppid = 1\<rparr>)
      = Return None"
    by (simp add: Reload_example_os)
  have x: "Executable example_os = Inr ''/srv/app''" "Args example_os = [''/srv/app'']"
    "Environ example_os = [''PATH=/usr/bin'']" "TCPListener_File example_os 7 = Inr (File 9)"
    by (simp_all add: example_os_def)
  show ?thesis
    using h Reload_spawn_parameters [OF h]
    by (simp add: x Stdin_def Stdout_def Stderr_def)
qed

text \<open>
  A reload signal whose \<^verbatim>\<open>Reload\<close> returns an error: \<^verbatim>\<open>WaitForSignal\<close>
  logs "Failed to reload" with the error and goes on with the next signal, with the same
  upgrader and server: it waits when there is none, the server was not shut down, and
  \<^verbatim>\<open>Reload\<close> was entered once.
\<close>

lemma WaitForSignal_returned_error_continues:
  assumes "fst (Reload os g) = Return (Some err)"
  shows "WaitForSignal g srv ((SIGHUP, os) # sigs) =
           (fst (WaitForSignal g srv sigs),
            snd (Reload os g) @ [LogError ''Failed to reload'' err]
            @ snd (WaitForSignal g srv sigs))
         \<and> WaitForSignal g srv [(SIGHUP, os)] =
           (Block, snd (Reload os g) @ [LogError ''Failed to reload'' err])
         \<and> shutdowns (snd (Reload os g) @ [LogError ''Failed to reload'' err]) = []
         \<and> reload_starts (snd (Reload os g) @ [LogError ''Failed to reload'' err]) = 1"
proof -
  have rl: "Reload os g = (Return (Some err), snd (Reload os g))"
    using assms by (cases "Reload os g") simp
  have step: "\<And>rest. WaitForSignal g srv ((SIGHUP, os) # rest) =
           (fst (WaitForSignal g srv rest),
            snd (Reload os g) @ [LogError ''Failed to reload'' err]
            @ snd (WaitForSignal g srv rest))"
    by (subst WaitForSignal.simps, subst rl) (simp split: prod.splits)
  have one: "reload_starts (snd (Reload os g) @ [LogError ''Failed to reload'' err]) = 1"
    using Reload_one_start [of os g] by (simp add: reload_starts_def)
  show ?thesis
    using step [of sigs] step [of "[]"] one by simp
qed

lemma WaitForSignal_returned_error_continues_example:
  "fst (Reload no_executable_os tcp_upgrader) =
     Return (Some (Wrapped ''failed to get executable path''
                     (OSError ''no such file or directory'')))
   \<and> WaitForSignal tcp_upgrader example_server
       [(SIGHUP, no_executable_os), (SIGTERM, example_os)] =
     (Return None,
      [LogInfo ''Starting graceful reload'' [(''old_pid'', 100)],
       LogError ''Failed to reload''
         (Wrapped ''failed to get executable path'' (OSError ''no such file or directory'')),
       EvShutdown (30 * Second),
       LogInfo ''Graceful shutdown completed'' [(''pid'', 100)]])
   \<and> WaitForSignal tcp_upgrader example_server [(SIGHUP, no_executable_os)] =
     (Block,
      [LogInfo ''Starting graceful reload'' [(''old_pid'', 100)],
       LogError ''Failed to reload''
         (Wrapped ''failed to get executable path'' (OSError ''no such file or directory''))])"
proof -
  have r: "Reload no_executable_os tcp_upgrader =
     (Return (Some (Wrapped ''failed to get executable path''
                     (OSError ''no such file or directory''))),
      [LogInfo ''Starting graceful reload'' [(''old_pid'', 100)]])"
    by (simp add: Reload_def no_executable_os_def tcp_upgrader_def)
  have h: "fst (Reload no_executable_os tcp_upgrader) =
     Return (Some (Wrapped ''failed to get executable path''
                     (OSError ''no such file or directory'')))"
    by (simp add: r)
  have t: "WaitForSignal tcp_upgrader example_server [(SIGTERM, example_os)] =
     (Return None,
      [EvShutdown (30 * Second), LogInfo ''Graceful shutdown completed'' [(''pid'', 100)]])"
    by (simp add: example_server_def tcp_upgrader_def)
  show ?thesis
    using h WaitForSignal_returned_error_continues [OF h, of example_server
        "[(SIGTERM, example_os)]"]
    by (simp add: r t del: WaitForSignal.simps)
qed

text \<open>
  C6. The claim: after every reload signal whose \<^verbatim>\<open>Reload\<close> fails, also for a
  listener of an unsupported kind, \<^verbatim>\<open>WaitForSignal\<close> logs the failure and goes on
  waiting for signals. The code: with the listener of \<^verbatim>\<open>Listen("unixpacket", ...)\<close>
  the reload signal ends \<^verbatim>\<open>WaitForSignal\<close> in the panic of \<^verbatim>\<open>Reload\<close>:
  "Failed to reload" is not logged, and the terminate signal that follows is not handled
  (the server is never shut down). With the same signals and a TCP listener whose
  \<^verbatim>\<open>Reload\<close> returns an error, the failure is logged and the terminate signal
  handled.
\<close>

theorem WaitForSignal_unsupported_listener_panics:
  "WaitForSignal unix_upgrader example_server [(SIGHUP, example_os), (SIGTERM, example_os)]
     = (Panic ''interface conversion: net.Listener is not *net.TCPListener'',
        [LogInfo ''Starting graceful reload'' [(''old_pid'', 100)]])
   \<and> WaitForSignal tcp_upgrader example_server
       [(SIGHUP, no_executable_os), (SIGTERM, example_os)]
     = (Return None,
        [LogInfo ''Starting graceful reload'' [(''old_pid'', 100)],
         LogError ''Failed to reload''
           (Wrapped ''failed to get executable path'' (OSError ''no such file or directory'')),
         EvShutdown (30 * Second),
         LogInfo ''Graceful shutdown completed'' [(''pid'', 100)]])"
proof -
  have p: "Reload example_os unix_upgrader
     = (Panic ''interface conversion: net.Listener is not *net.TCPListener'',
        [LogInfo ''Starting graceful reload'' [(''old_pid'', 100)]])"
    by (simp add: Reload_def example_os_def unix_upgrader_def)
  have r: "Reload no_executable_os tcp_upgrader =
     (Return (Some (Wrapped ''failed to get executable path''
                     (OSError ''no such file or directory''))),
      [LogInfo ''Starting graceful reload'' [(''old_pid'', 100)]])"
    by (simp add: Reload_def no_executable_os_def tcp_upgrader_def)
  have sd: "Shutdown example_server (30 * Second) = None"
    by (simp add: example_server_def)
  have pid: "pid tcp_upgrader = 100"
    by (simp add: tcp_upgrader_def)
  show ?thesis
    by (simp add: p r sd pid)
qed



text \<open>
  C8. A run of \<^verbatim>\<open>GracefulServe\<close> or of \<^verbatim>\<open>WaitForSignal\<close> (terminate and
  reload path) calls \<^verbatim>\<open>server.Shutdown\<close> at most once, with a timeout of 30 seconds
  (30000000000 nanoseconds), and then returns what \<^verbatim>\<open>Shutdown\<close> returned under
  that deadline: nil, or its error (wrapped, in \<^verbatim>\<open>GracefulServe\<close>), which is
  \<^verbatim>\<open>context.DeadlineExceeded\<close> when the deadline elapsed first.
\<close>

theorem drain_deadline_is_30_seconds:
  "(shutdowns (snd (GracefulServe engine srv arrivals)) = []
    \<or> shutdowns (snd (GracefulServe engine srv arrivals)) = [30 * Second]
      \<and> fst (GracefulServe engine srv arrivals) =
          Return (map_option (Wrapped ''server shutdown error'') (Shutdown srv (30 * Second))))
   \<and> (shutdowns (snd (WaitForSignal g srv sigs)) = []
    \<or> shutdowns (snd (WaitForSignal g srv sigs)) = [30 * Second]
      \<and> fst (WaitForSignal g srv sigs) = Return (Shutdown srv (30 * Second)))
   \<and> 30 * Second = (30000000000 :: int)"
proof -
  have serve: "shutdowns (snd (GracefulServe engine srv arrivals)) = []
    \<or> shutdowns (snd (GracefulServe engine srv arrivals)) = [30 * Second]
      \<and> fst (GracefulServe engine srv arrivals) =
          Return (map_option (Wrapped ''server shutdown error'') (Shutdown srv (30 * Second)))"
  proof (cases "shutdowns (snd (GracefulServe engine srv arrivals)) = []")
    case True
    then show ?thesis by simp
  next
    case False
    show ?thesis
      by (simp add: GracefulServe_shutdown_requested [OF False] split: option.splits)
  qed
  have seconds: "30 * Second = (30000000000 :: int)"
    by (simp add: Second_def)
  show ?thesis
    using serve WaitForSignal_shutdowns [of g srv sigs] seconds by blast
qed

theorem drain_deadline_is_30_seconds_witness:
  "shutdowns (snd (GracefulServe two_callbacks_engine slow_server [Quit SIGTERM]))
     = [30000000000]
   \<and> fst (GracefulServe two_callbacks_engine slow_server [Quit SIGTERM])
     = Return (Some (Wrapped ''server shutdown error'' DeadlineExceeded))
   \<and> shutdowns (snd (WaitForSignal tcp_upgrader slow_server [(SIGHUP, example_os)]))
     = [30000000000]
   \<and> fst (WaitForSignal tcp_upgrader slow_server [(SIGHUP, example_os)])
     = Return (Some DeadlineExceeded)
   \<and> shutdowns (snd (WaitForSignal tcp_upgrader slow_server [(SIGINT, example_os)]))
     = [30000000000]
   \<and> fst (WaitForSignal tcp_upgrader slow_server [(SIGINT, example_os)])
     = Return (Some DeadlineExceeded)"
proof -
  have sd: "Shutdown slow_server (30 * Second) = Some DeadlineExceeded"
    by (simp add: slow_server_def Second_def)
  have s1: "shutdowns (snd (GracefulServe two_callbacks_engine slow_server [Quit SIGTERM])) \<noteq> []"
    by (simp add: two_callbacks_engine_slow del: GracefulServe.simps)
  have s2: "shutdowns (snd (WaitForSignal tcp_upgrader slow_server [(SIGHUP, example_os)])) \<noteq> []"
    using Reload_example_os by (simp add: tcp_upgrader_def sd)
  have s3: "shutdowns (snd (WaitForSignal tcp_upgrader slow_server [(SIGINT, example_os)])) \<noteq> []"
    by (simp add: sd)
  show ?thesis
    using s1 s2
      drain_deadline_is_30_seconds [of two_callbacks_engine slow_server "[Quit SIGTERM]"
        tcp_upgrader "[(SIGHUP, example_os)]"]
      s3
      drain_deadline_is_30_seconds [of two_callbacks_engine slow_server "[Quit SIGTERM]"
        tcp_upgrader "[(SIGINT, example_os)]"]
    by (simp add: sd del: GracefulServe.simps WaitForSignal.simps)
qed

end
